theory Spec2Isabelle
  imports Complex_Main
begin

section \<open>Python values used by the game engine\<close>

text \<open>
  The engine (\<^verbatim>\<open>game.py\<close>, class \<^verbatim>\<open>MathGame\<close>) is embedded as pure functions over an
  explicit session record. Every exception the source can raise is a value of \<open>pyexc\<close>;
  a function that can raise returns \<open>pyexc + 'a\<close>, with \<open>Inl\<close> the exception.
\<close>

datatype pyexc = ValueError | ZeroDivisionError | OverflowError | UnboundLocalError | IndexError

subsection \<open>Binary64 floating point\<close>

text \<open>
  A Python \<^verbatim>\<open>float\<close> is an IEEE 754 binary64 value. A finite value is carried as the
  rational number it denotes (\<open>Fin q\<close>, meant for representable \<open>q\<close>); the two zeros are
  identified, since the engine never observes the sign of a zero (a division by either
  zero raises). Every arithmetic operation computes the exact rational result and rounds
  it with \<open>rnd\<close>: round to nearest, ties to even, 53 bits of precision, gradual underflow
  below \<open>2^-1022\<close>, overflow to an infinity from \<open>2^1024\<close> on.
\<close>

datatype pyfloat = Fin rat | PInf | NInf | NaN

text \<open>\<open>ipow b k\<close> is \<open>b ^ k\<close> for \<open>k \<ge> 0\<close>, by repeated squaring.\<close>

function ipow :: "rat \<Rightarrow> int \<Rightarrow> rat" where
  "ipow b k = (if k \<le> 0 then 1
               else if even k then (let h = ipow b (k div 2) in h * h)
               else b * ipow b (k - 1))"
  by pat_completeness auto
termination
  by (relation "measure (\<lambda>(b, k). nat k)") auto

declare ipow.simps [simp del]

definition pow2 :: "int \<Rightarrow> rat" where
  "pow2 k = (if 0 \<le> k then ipow 2 k else 1 / ipow 2 (- k))"

text \<open>The number of binary digits of a positive integer (Python's \<^verbatim>\<open>int.bit_length\<close>).\<close>

function bit_length :: "int \<Rightarrow> int" where
  "bit_length n = (if n \<le> 0 then 0 else 1 + bit_length (n div 2))"
  by pat_completeness auto
termination
  by (relation "measure nat") auto

declare bit_length.simps [simp del]

text \<open>\<open>ilog2 x\<close> is the exponent \<open>e\<close> with \<open>2^e \<le> x < 2^(e+1)\<close>, for \<open>x > 0\<close>.\<close>

definition ilog2 :: "rat \<Rightarrow> int" where
  "ilog2 x = (let k = bit_length (fst (quotient_of x)) - bit_length (snd (quotient_of x))
              in if pow2 k \<le> x then k else k - 1)"

definition round_half_even :: "rat \<Rightarrow> int" where
  "round_half_even m = (let f = \<lfloor>m\<rfloor>; d = m - of_int f in
     if d < 1 / 2 then f else if 1 / 2 < d then f + 1 else if even f then f else f + 1)"

definition rnd :: "rat \<Rightarrow> pyfloat" where
  "rnd x = (if x = 0 then Fin 0 else
     let a = \<bar>x\<bar>; e = max (ilog2 a) (- 1022); u = pow2 (e - 52);
         r = of_int (round_half_even (a / u)) * u
     in if pow2 1024 \<le> r then (if 0 < x then PInf else NInf)
        else Fin (if 0 < x then r else - r))"

fun fneg :: "pyfloat \<Rightarrow> pyfloat" where
  "fneg (Fin a) = Fin (- a)"
| "fneg PInf = NInf"
| "fneg NInf = PInf"
| "fneg NaN = NaN"

fun fadd :: "pyfloat \<Rightarrow> pyfloat \<Rightarrow> pyfloat" where
  "fadd NaN y = NaN"
| "fadd x NaN = NaN"
| "fadd (Fin a) (Fin b) = rnd (a + b)"
| "fadd PInf NInf = NaN"
| "fadd NInf PInf = NaN"
| "fadd PInf y = PInf"
| "fadd NInf y = NInf"
| "fadd (Fin a) y = y"

definition fsub :: "pyfloat \<Rightarrow> pyfloat \<Rightarrow> pyfloat" where
  "fsub x y = fadd x (fneg y)"

text \<open>The sign of a float: \<open>1\<close>, \<open>0\<close> or \<open>-1\<close> (\<open>0\<close> also for NaN, which the callers exclude).\<close>

fun fsgn :: "pyfloat \<Rightarrow> int" where
  "fsgn (Fin a) = (if 0 < a then 1 else if a < 0 then - 1 else 0)"
| "fsgn PInf = 1"
| "fsgn NInf = - 1"
| "fsgn NaN = 0"

definition inf_of_sign :: "int \<Rightarrow> pyfloat" where
  "inf_of_sign s = (if 0 < s then PInf else NInf)"

fun fmul :: "pyfloat \<Rightarrow> pyfloat \<Rightarrow> pyfloat" where
  "fmul NaN y = NaN"
| "fmul x NaN = NaN"
| "fmul (Fin a) (Fin b) = rnd (a * b)"
| "fmul x y = (if fsgn x * fsgn y = 0 then NaN else inf_of_sign (fsgn x * fsgn y))"

text \<open>
  Python's \<^verbatim>\<open>/\<close> on floats raises \<^verbatim>\<open>ZeroDivisionError\<close> whenever the divisor is a
  zero, whatever the dividend.
\<close>

fun fdiv :: "pyfloat \<Rightarrow> pyfloat \<Rightarrow> pyexc + pyfloat" where
  "fdiv x (Fin b) =
     (if b = 0 then Inl ZeroDivisionError
      else case x of
             Fin a \<Rightarrow> Inr (rnd (a / b))
           | NaN \<Rightarrow> Inr NaN
           | _ \<Rightarrow> Inr (inf_of_sign (fsgn x * fsgn (Fin b))))"
| "fdiv x NaN = Inr NaN"
| "fdiv (Fin a) y = Inr (Fin 0)"
| "fdiv x y = Inr NaN"

fun fabs :: "pyfloat \<Rightarrow> pyfloat" where
  "fabs (Fin a) = Fin \<bar>a\<bar>"
| "fabs PInf = PInf"
| "fabs NInf = PInf"
| "fabs NaN = NaN"

text \<open>\<open>flt x y\<close> is Python's \<^verbatim>\<open>x < y\<close> on floats: false as soon as one side is NaN.\<close>

fun flt :: "pyfloat \<Rightarrow> pyfloat \<Rightarrow> bool" where
  "flt NaN y = False"
| "flt x NaN = False"
| "flt (Fin a) (Fin b) = (a < b)"
| "flt x PInf = (x \<noteq> PInf)"
| "flt NInf y = (y \<noteq> NInf)"
| "flt x y = False"

text \<open>
  Conversion of an \<^verbatim>\<open>int\<close> operand in mixed arithmetic: correctly rounded, and
  \<^verbatim>\<open>OverflowError\<close> ("int too large to convert to float") beyond the finite range.
\<close>

definition int_to_float :: "int \<Rightarrow> pyexc + pyfloat" where
  "int_to_float n = (case rnd (of_int n) of Fin q \<Rightarrow> Inr (Fin q) | _ \<Rightarrow> Inl OverflowError)"

subsection \<open>Strings\<close>

text \<open>
  A Python \<^verbatim>\<open>str\<close> is modelled by the list of its code points, for code points below 256.
  \<^verbatim>\<open>str.strip()\<close> and the regular expression class \<^verbatim>\<open>\s\<close> remove Unicode white space;
  \<^verbatim>\<open>int()\<close> and \<^verbatim>\<open>float()\<close> skip a smaller set (the ASCII separators \<open>0x1C\<close> to \<open>0x1F\<close>
  are white space for \<^verbatim>\<open>strip\<close> only).
\<close>

definition is_space :: "char \<Rightarrow> bool" where
  "is_space c = (let n = (of_char c :: nat) in
     (9 \<le> n \<and> n \<le> 13) \<or> (28 \<le> n \<and> n \<le> 32) \<or> n = 133 \<or> n = 160)"

definition is_num_space :: "char \<Rightarrow> bool" where
  "is_num_space c = (let n = (of_char c :: nat) in
     (9 \<le> n \<and> n \<le> 13) \<or> n = 32 \<or> n = 133 \<or> n = 160)"

definition is_digit :: "char \<Rightarrow> bool" where
  "is_digit c = (let n = (of_char c :: nat) in 48 \<le> n \<and> n \<le> 57)"

definition digit_val :: "char \<Rightarrow> int" where
  "digit_val c = of_char c - 48"

definition digits_val :: "string \<Rightarrow> int" where
  "digits_val ds = foldl (\<lambda>a c. 10 * a + digit_val c) 0 ds"

definition strip_with :: "(char \<Rightarrow> bool) \<Rightarrow> string \<Rightarrow> string" where
  "strip_with sp s = rev (dropWhile sp (rev (dropWhile sp s)))"

definition strip :: "string \<Rightarrow> string" where
  "strip s = strip_with is_space s"

text \<open>\<^verbatim>\<open>s.split(c)\<close>: the pieces between the occurrences of \<open>c\<close>, at least one piece.\<close>

fun split :: "char \<Rightarrow> string \<Rightarrow> string list" where
  "split c [] = [[]]"
| "split c (x # xs) =
     (if x = c then [] # split c xs
      else case split c xs of p # ps \<Rightarrow> (x # p) # ps | [] \<Rightarrow> [[x]])"

definition has_slash :: "string \<Rightarrow> bool" where
  "has_slash s = (CHR ''/'' \<in> set s)"

fun lower :: "char \<Rightarrow> char" where
  "lower c = (let n = (of_char c :: nat) in if 65 \<le> n \<and> n \<le> 90 then char_of (n + 32) else c)"

text \<open>\<^verbatim>\<open>str(n)\<close> and \<^verbatim>\<open>f"{n}"\<close> for an \<^verbatim>\<open>int\<close>.\<close>

fun str_of_nat :: "nat \<Rightarrow> string" where
  "str_of_nat n = (if n < 10 then [char_of (48 + n)]
                   else str_of_nat (n div 10) @ [char_of (48 + n mod 10)])"

declare str_of_nat.simps [simp del]

definition str_of_int :: "int \<Rightarrow> string" where
  "str_of_int i = (if i < 0 then CHR ''-'' # str_of_nat (nat (- i)) else str_of_nat (nat i))"

subsection \<open>Parsing numbers\<close>

text \<open>
  Underscores in numeric literals: each must stand between two digits. \<open>del_us p s\<close>
  removes them from \<open>s\<close>, where \<open>p\<close> is the character before \<open>s\<close>, and fails on a
  misplaced one.
\<close>

fun del_us :: "char \<Rightarrow> string \<Rightarrow> string option" where
  "del_us p [] = (if p = CHR ''_'' then None else Some [])"
| "del_us p (c # cs) =
     (if c = CHR ''_'' then (if is_digit p then del_us c cs else None)
      else if p = CHR ''_'' \<and> \<not> is_digit c then None
      else map_option ((#) c) (del_us c cs))"

text \<open>A run of digits with single underscores between them; its value.\<close>

definition digits_of :: "string \<Rightarrow> int option" where
  "digits_of s = (case del_us (CHR 0x00) s of
      None \<Rightarrow> None
    | Some ds \<Rightarrow> if ds \<noteq> [] \<and> list_all is_digit ds then Some (digits_val ds) else None)"

text \<open>An optional sign in front of a body.\<close>

fun split_sign :: "string \<Rightarrow> bool \<times> string" where
  "split_sign [] = (False, [])"
| "split_sign (c # cs) =
     (if c = CHR ''-'' then (True, cs) else if c = CHR ''+'' then (False, cs) else (False, c # cs))"

text \<open>
  \<^verbatim>\<open>int(s)\<close> for a string: white space around, an optional sign, digits. (The
  interpreter's configurable limit on the number of digits is not modelled.)
\<close>

definition int_of_string :: "string \<Rightarrow> pyexc + int" where
  "int_of_string s =
     (case split_sign (strip_with is_num_space s) of (neg, body) \<Rightarrow>
        (case digits_of body of
           None \<Rightarrow> Inl ValueError
         | Some n \<Rightarrow> Inr (if neg then - n else n)))"

text \<open>
  The decimal form accepted by \<^verbatim>\<open>float(s)\<close>: digits, an optional point and more digits
  (one digit at least in all), an optional exponent. The result is the exact value.
\<close>

definition parse_exponent :: "string \<Rightarrow> int option" where
  "parse_exponent s =
     (case s of
        [] \<Rightarrow> Some 0
      | c # cs \<Rightarrow>
          if c = CHR ''e'' then
            (case split_sign cs of (neg, ds) \<Rightarrow>
               if ds \<noteq> [] \<and> list_all is_digit ds
               then Some (if neg then - digits_val ds else digits_val ds)
               else None)
          else None)"

definition pow10 :: "int \<Rightarrow> rat" where
  "pow10 k = (if 0 \<le> k then ipow 10 k else 1 / ipow 10 (- k))"

definition parse_decimal :: "string \<Rightarrow> rat option" where
  "parse_decimal s =
     (let ip = takeWhile is_digit s; r1 = dropWhile is_digit s;
          fp = (case r1 of c # cs \<Rightarrow> if c = CHR ''.'' then takeWhile is_digit cs else [] | [] \<Rightarrow> []);
          r2 = (case r1 of c # cs \<Rightarrow> if c = CHR ''.'' then dropWhile is_digit cs else r1 | [] \<Rightarrow> [])
      in if ip @ fp = [] then None
         else (case parse_exponent r2 of
                 None \<Rightarrow> None
               | Some e \<Rightarrow> Some (of_int (digits_val (ip @ fp)) * pow10 (e - int (length fp)))))"

text \<open>\<^verbatim>\<open>float(s)\<close> for a string.\<close>

definition float_of_string :: "string \<Rightarrow> pyexc + pyfloat" where
  "float_of_string s =
     (case del_us (CHR 0x00) s of
        None \<Rightarrow> Inl ValueError
      | Some t \<Rightarrow>
         (case split_sign (map lower (strip_with is_num_space t)) of (neg, body) \<Rightarrow>
            if body = ''inf'' \<or> body = ''infinity'' then Inr (if neg then NInf else PInf)
            else if body = ''nan'' then Inr NaN
            else (case parse_decimal body of
                    None \<Rightarrow> Inl ValueError
                  | Some q \<Rightarrow> Inr (rnd (if neg then - q else q)))))"

text \<open>
  \<^verbatim>\<open>fractions.Fraction(n, d)\<close> for two ints, and \<^verbatim>\<open>fractions.Fraction(s)\<close> for a string
  that contains a slash (the only strings the engine passes): white space around, an
  optional sign, digits, the slash, digits. No white space is accepted next to the
  slash (CPython up to 3.11; from 3.12 on it is); no statement below depends on it.
\<close>

definition fraction_of_ints :: "int \<Rightarrow> int \<Rightarrow> pyexc + rat" where
  "fraction_of_ints n d = (if d = 0 then Inl ZeroDivisionError else Inr (of_int n / of_int d))"

definition fraction_of_string :: "string \<Rightarrow> pyexc + rat" where
  "fraction_of_string s =
     (case split (CHR ''/'') (strip s) of
        [a, b] \<Rightarrow>
          (case split_sign a of (neg, body) \<Rightarrow>
             (case (digits_of body, digits_of b) of
                (Some n, Some d) \<Rightarrow> fraction_of_ints (if neg then - n else n) d
              | _ \<Rightarrow> Inl ValueError))
      | _ \<Rightarrow> Inl ValueError)"

text \<open>\<^verbatim>\<open>fractions.Fraction(x)\<close> for a float: its exact value.\<close>

fun fraction_of_float :: "pyfloat \<Rightarrow> pyexc + rat" where
  "fraction_of_float (Fin q) = Inr q"
| "fraction_of_float NaN = Inl ValueError"
| "fraction_of_float x = Inl OverflowError"

subsection \<open>Numbers: \<^verbatim>\<open>int\<close> or \<^verbatim>\<open>float\<close>\<close>

datatype pynum = PInt int | PFloat pyfloat

definition exc_bind :: "pyexc + 'a \<Rightarrow> ('a \<Rightarrow> pyexc + 'b) \<Rightarrow> pyexc + 'b" where
  "exc_bind m f = (case m of Inl e \<Rightarrow> Inl e | Inr v \<Rightarrow> f v)"

text \<open>The float operand of a mixed operation.\<close>

fun as_float :: "pynum \<Rightarrow> pyexc + pyfloat" where
  "as_float (PInt n) = int_to_float n"
| "as_float (PFloat x) = Inr x"

text \<open>\<^verbatim>\<open>a * b\<close> and \<^verbatim>\<open>a + b\<close>: exact on two ints, in binary64 as soon as one side is a float.\<close>

fun num_mul :: "pynum \<Rightarrow> pynum \<Rightarrow> pyexc + pynum" where
  "num_mul (PInt a) (PInt b) = Inr (PInt (a * b))"
| "num_mul x y = exc_bind (as_float x) (\<lambda>a. exc_bind (as_float y) (\<lambda>b. Inr (PFloat (fmul a b))))"

fun num_add :: "pynum \<Rightarrow> pynum \<Rightarrow> pyexc + pynum" where
  "num_add (PInt a) (PInt b) = Inr (PInt (a + b))"
| "num_add x y = exc_bind (as_float x) (\<lambda>a. exc_bind (as_float y) (\<lambda>b. Inr (PFloat (fadd a b))))"

text \<open>
  \<^verbatim>\<open>a / b\<close> on two ints: the correctly rounded quotient. On a float and an int: the int is
  converted first.
\<close>

definition int_truediv :: "int \<Rightarrow> int \<Rightarrow> pyexc + pyfloat" where
  "int_truediv a b =
     (if b = 0 then Inl ZeroDivisionError
      else case rnd (of_int a / of_int b) of Fin q \<Rightarrow> Inr (Fin q) | _ \<Rightarrow> Inl OverflowError)"

definition float_div_int :: "pyfloat \<Rightarrow> int \<Rightarrow> pyexc + pyfloat" where
  "float_div_int x n = exc_bind (int_to_float n) (\<lambda>d. fdiv x d)"

text \<open>
  \<^verbatim>\<open>max(0, x)\<close> for a float \<open>x\<close>: the int \<open>0\<close> unless \<^verbatim>\<open>x > 0\<close> holds (so also for NaN).
\<close>

definition max0 :: "pyfloat \<Rightarrow> pynum" where
  "max0 x = (if flt (Fin 0) x then PFloat x else PInt 0)"

text \<open>
  \<^verbatim>\<open>int(x)\<close>: truncation toward zero; \<^verbatim>\<open>OverflowError\<close> on an infinity and
  \<^verbatim>\<open>ValueError\<close> on NaN.
\<close>

fun py_int :: "pynum \<Rightarrow> pyexc + int" where
  "py_int (PInt n) = Inr n"
| "py_int (PFloat (Fin q)) = Inr (if 0 \<le> q then \<lfloor>q\<rfloor> else \<lceil>q\<rceil>)"
| "py_int (PFloat NaN) = Inl ValueError"
| "py_int (PFloat x) = Inl OverflowError"

text \<open>\<^verbatim>\<open>xs[i]\<close>: a negative index counts from the end; out of range raises.\<close>

definition list_index :: "'a list \<Rightarrow> int \<Rightarrow> pyexc + 'a" where
  "list_index xs i =
     (if 0 \<le> i \<and> i < int (length xs) then Inr (xs ! nat i)
      else if i < 0 \<and> - int (length xs) \<le> i then Inr (xs ! nat (int (length xs) + i))
      else Inl IndexError)"

text \<open>
  \<^verbatim>\<open>sum(...)\<close> over floats, from the int \<open>0\<close>, added left to right, each addition
  rounded (CPython up to 3.11; from 3.12 on \<^verbatim>\<open>sum\<close> compensates the rounding errors of
  the additions, which can change the last bit of the result).
\<close>

definition float_sum :: "pyfloat list \<Rightarrow> pyfloat" where
  "float_sum xs = foldl fadd (Fin 0) xs"

section \<open>The session: class \<^verbatim>\<open>MathGame\<close>\<close>

text \<open>
  A round result is the dict built by the round loop. The engine reads \<^verbatim>\<open>'score'\<close> with
  \<^verbatim>\<open>.get('score', 0)\<close>, so that key may be absent (\<open>None\<close>); the other keys are read with
  \<^verbatim>\<open>r[...]\<close> and are present.
\<close>

record RoundResult =
  correct :: bool
  time_taken :: pyfloat
  question :: string
  user_answer :: "string option"
  correct_answer :: string
  score :: "int option"

record MathGame =
  operation_type :: "int option"
  difficulty :: int
  adaptive_difficulty :: bool
  rounds :: int
  results :: "RoundResult list"
  streak_count :: int
  total_score :: int
  timed_mode :: bool
  time_limit :: int

definition MAX_ROUNDS :: int where "MAX_ROUNDS = 10"
definition POINTS_BASE :: int where "POINTS_BASE = 100"
definition POINTS_SPEED_BONUS_THRESHOLD :: pyfloat where "POINTS_SPEED_BONUS_THRESHOLD = Fin 5"
definition POINTS_SPEED_BONUS :: int where "POINTS_SPEED_BONUS = 50"
definition POINTS_DIFFICULTY_MULTIPLIER :: "pynum list" where
  "POINTS_DIFFICULTY_MULTIPLIER = [PInt 1, PFloat (Fin (3 / 2)), PFloat (Fin (5 / 2))]"
definition STREAK_BONUS_THRESHOLD :: int where "STREAK_BONUS_THRESHOLD = 3"
definition STREAK_BONUS :: int where "STREAK_BONUS = 25"

text \<open>The literals \<^verbatim>\<open>0.1\<close> and \<^verbatim>\<open>0.001\<close> denote the nearest binary64 values.\<close>

definition lit_0_1 :: pyfloat where "lit_0_1 = rnd (1 / 10)"
definition lit_0_001 :: pyfloat where "lit_0_001 = rnd (1 / 1000)"

text \<open>\<^verbatim>\<open>MathGame.__init__\<close>\<close>

definition init_game :: MathGame where
  "init_game = \<lparr>operation_type = None, difficulty = 1, adaptive_difficulty = False,
     rounds = MAX_ROUNDS, results = [], streak_count = 0, total_score = 0,
     timed_mode = False, time_limit = 60\<rparr>"

text \<open>\<^verbatim>\<open>MathGame.setup_game\<close>\<close>

definition setup_game :: "MathGame \<Rightarrow> int option \<Rightarrow> int \<Rightarrow> int \<Rightarrow> bool \<Rightarrow> int \<Rightarrow> MathGame" where
  "setup_game self op difficulty_choice n timed limit =
     (let s = self\<lparr>operation_type := op, rounds := n, results := [], streak_count := 0,
                   total_score := 0, timed_mode := timed, time_limit := limit\<rparr>
      in if difficulty_choice < 4
         then s\<lparr>difficulty := difficulty_choice, adaptive_difficulty := False\<rparr>
         else s\<lparr>difficulty := 1, adaptive_difficulty := True\<rparr>)"

text \<open>
  \<^verbatim>\<open>MathGame.calculate_score\<close>. The two bonus blocks of the method are \<open>add_speed_bonus\<close>
  (\<^verbatim>\<open>if time_taken < POINTS_SPEED_BONUS_THRESHOLD: ...\<close>) and \<open>add_streak_bonus\<close>
  (\<^verbatim>\<open>if self.streak_count >= STREAK_BONUS_THRESHOLD: ...\<close>); each takes the score so far.
\<close>

definition add_speed_bonus :: "pynum \<Rightarrow> pyfloat \<Rightarrow> pyexc + pynum" where
  "add_speed_bonus sc t =
     (if flt t POINTS_SPEED_BONUS_THRESHOLD
      then exc_bind (fdiv (fsub POINTS_SPEED_BONUS_THRESHOLD t) POINTS_SPEED_BONUS_THRESHOLD)
             (\<lambda>q. exc_bind (num_mul (PInt POINTS_SPEED_BONUS) (max0 q)) (num_add sc))
      else Inr sc)"

definition add_streak_bonus :: "int \<Rightarrow> pynum \<Rightarrow> pyexc + pynum" where
  "add_streak_bonus streak sc =
     (if streak \<ge> STREAK_BONUS_THRESHOLD
      then exc_bind (num_mul (PInt (streak - STREAK_BONUS_THRESHOLD)) (PFloat lit_0_1)) (\<lambda>a.
           exc_bind (num_add (PInt 1) a) (\<lambda>b.
           exc_bind (num_mul (PInt STREAK_BONUS) b) (num_add sc)))
      else Inr sc)"

definition calculate_score :: "MathGame \<Rightarrow> bool \<Rightarrow> pyfloat \<Rightarrow> pyexc + int" where
  "calculate_score self is_correct t =
     (if \<not> is_correct then Inr 0
      else
        exc_bind (list_index POINTS_DIFFICULTY_MULTIPLIER (difficulty self - 1)) (\<lambda>m.
        exc_bind (num_mul (PInt POINTS_BASE) m) (\<lambda>score0.
        exc_bind (add_speed_bonus score0 t) (\<lambda>score1.
        exc_bind (add_streak_bonus (streak_count self) score1) py_int))))"

text \<open>
  \<^verbatim>\<open>MathGame.adjust_difficulty\<close>. The result pairs what the call returns or raises with
  the session after the call (the difficulty is assigned before the message is built).
\<close>

definition difficulty_names :: "string list" where
  "difficulty_names = [''Easy'', ''Medium'', ''Hard'']"

definition recent_results :: "MathGame \<Rightarrow> RoundResult list" where
  "recent_results self = drop (length (results self) - 3) (results self)"

definition count_correct :: "RoundResult list \<Rightarrow> int" where
  "count_correct rs = int (length (filter correct rs))"

definition average_time :: "RoundResult list \<Rightarrow> pyexc + pyfloat" where
  "average_time rs = float_div_int (float_sum (map time_taken rs)) (int (length rs))"

definition difficulty_message :: "int \<Rightarrow> int \<Rightarrow> pyexc + string option" where
  "difficulty_message old new =
     (if old \<noteq> new
      then exc_bind (list_index difficulty_names (new - 1)) (\<lambda>name.
             if new > old then Inr (Some (''Difficulty increased to '' @ name))
             else Inr (Some (''Difficulty adjusted to '' @ name @ '' to help you improve'')))
      else Inr None)"

definition adjust_difficulty :: "MathGame \<Rightarrow> (pyexc + string option) \<times> MathGame" where
  "adjust_difficulty self =
     (if \<not> adaptive_difficulty self then (Inr None, self)
      else if length (recent_results self) < 3 then (Inr None, self)
      else case average_time (recent_results self) of
             Inl e \<Rightarrow> (Inl e, self)
           | Inr avg_time \<Rightarrow>
               (let correct_count = count_correct (recent_results self);
                    old_difficulty = difficulty self;
                    new_difficulty =
                      (if correct_count = 3 \<and> flt avg_time (Fin 5) then min 3 (old_difficulty + 1)
                       else if correct_count \<le> 1 then max 1 (old_difficulty - 1)
                       else old_difficulty)
                in (difficulty_message old_difficulty new_difficulty,
                    self\<lparr>difficulty := new_difficulty\<rparr>)))"

text \<open>\<^verbatim>\<open>MathGame.update_streak\<close>: the message returned and the session after the call.\<close>

definition update_streak :: "MathGame \<Rightarrow> bool \<Rightarrow> string option \<times> MathGame" where
  "update_streak self is_correct =
     (if is_correct then
        (let n = streak_count self + 1
         in (if n \<ge> STREAK_BONUS_THRESHOLD \<and> n mod STREAK_BONUS_THRESHOLD = 0
             then Some (str_of_int n @ '' ANSWER STREAK!'') else None,
             self\<lparr>streak_count := n\<rparr>))
      else (if streak_count self \<ge> STREAK_BONUS_THRESHOLD then Some ''Streak broken!'' else None,
            self\<lparr>streak_count := 0\<rparr>))"

text \<open>\<^verbatim>\<open>MathGame.add_result\<close> and \<^verbatim>\<open>MathGame.get_game_stats\<close>\<close>

definition get_score :: "RoundResult \<Rightarrow> int" where
  "get_score r = (case score r of None \<Rightarrow> 0 | Some v \<Rightarrow> v)"

definition add_result :: "MathGame \<Rightarrow> RoundResult \<Rightarrow> MathGame" where
  "add_result self r = self\<lparr>results := results self @ [r],
                            total_score := total_score self + get_score r\<rparr>"

record GameStats =
  total_rounds :: int
  correct_count :: int
  accuracy :: pynum
  avg_time :: pynum
  stats_total_score :: int

definition get_game_stats :: "MathGame \<Rightarrow> pyexc + GameStats" where
  "get_game_stats self =
     (if results self = [] then
        Inr \<lparr>total_rounds = 0, correct_count = 0, accuracy = PInt 0, avg_time = PInt 0,
             stats_total_score = 0\<rparr>
      else
        (let n = int (length (results self)); c = count_correct (results self)
         in exc_bind (if n > 0
                      then exc_bind (int_truediv c n) (\<lambda>q. num_mul (PFloat q) (PInt 100))
                      else Inr (PInt 0)) (\<lambda>acc.
            exc_bind (if n > 0
                      then exc_bind (float_div_int (float_sum (map time_taken (results self))) n)
                             (\<lambda>a. Inr (PFloat a))
                      else Inr (PInt 0)) (\<lambda>avg.
            Inr \<lparr>total_rounds = n, correct_count = c, accuracy = acc, avg_time = avg,
                 stats_total_score = sum_list (map get_score (results self))\<rparr>))))"

section \<open>Judging an answer: \<^verbatim>\<open>MathGame.check_answer\<close>\<close>

text \<open>
  The body of the outer \<^verbatim>\<open>try\<close> is three attempts in a row. Each attempt either returns a
  verdict (\<open>Inr (Some b)\<close>), or ends in its own handler for \<^verbatim>\<open>ValueError\<close> and
  \<^verbatim>\<open>ZeroDivisionError\<close> and passes on to the next attempt (\<open>Inr None\<close>), or raises
  something else (\<open>Inl e\<close>), which leaves the body for the outer handler.
\<close>

definition try_pass :: "pyexc + bool \<Rightarrow> pyexc + bool option" where
  "try_pass m =
     (case m of
        Inr b \<Rightarrow> Inr (Some b)
      | Inl e \<Rightarrow> if e = ValueError \<or> e = ZeroDivisionError then Inr None else Inl e)"

text \<open>
  The locals \<^verbatim>\<open>user_parts\<close> and \<^verbatim>\<open>correct_parts\<close> are assigned only when both strings
  contain a slash; otherwise they stay unbound (\<open>None\<close>).
\<close>

definition answer_parts :: "string \<Rightarrow> string \<Rightarrow> (string list \<times> string list) option" where
  "answer_parts user_str correct_str =
     (if has_slash user_str \<and> has_slash correct_str
      then Some (split (CHR ''/'') user_str, split (CHR ''/'') correct_str)
      else None)"

text \<open>\<^verbatim>\<open>fractions.Fraction(int(parts[0]), int(parts[1]))\<close>\<close>

definition fraction_of_parts :: "string list \<Rightarrow> pyexc + rat" where
  "fraction_of_parts parts =
     exc_bind (list_index parts 0) (\<lambda>a. exc_bind (int_of_string a) (\<lambda>n.
     exc_bind (list_index parts 1) (\<lambda>b. exc_bind (int_of_string b) (\<lambda>d.
     fraction_of_ints n d))))"

text \<open>First attempt: both answers are written as fractions of two ints.\<close>

definition compare_fractions :: "string \<Rightarrow> string \<Rightarrow> pyexc + bool option" where
  "compare_fractions user_str correct_str =
     (case answer_parts user_str correct_str of
        None \<Rightarrow> Inr None
      | Some (user_parts, correct_parts) \<Rightarrow>
          if length user_parts = 2 \<and> length correct_parts = 2
          then try_pass
                 (exc_bind (fraction_of_parts user_parts) (\<lambda>user_frac.
                  exc_bind (fraction_of_parts correct_parts) (\<lambda>correct_frac.
                  Inr (user_frac = correct_frac))))
          else Inr None)"

text \<open>Second attempt: each answer becomes an exact \<^verbatim>\<open>Fraction\<close>, whatever its format.\<close>

definition to_fraction :: "string \<Rightarrow> pyexc + rat" where
  "to_fraction str =
     (if has_slash str then fraction_of_string str
      else exc_bind (float_of_string str) fraction_of_float)"

definition compare_exact :: "string \<Rightarrow> string \<Rightarrow> pyexc + bool option" where
  "compare_exact user_str correct_str =
     try_pass
       (exc_bind (to_fraction user_str) (\<lambda>user_frac.
        exc_bind (to_fraction correct_str) (\<lambda>correct_frac.
        Inr (user_frac = correct_frac))))"

text \<open>
  Third attempt: floats, with a tolerance. An answer with a slash is the quotient of its
  first two parts, read from \<^verbatim>\<open>user_parts\<close> or \<^verbatim>\<open>correct_parts\<close>.
\<close>

definition to_float :: "string \<Rightarrow> string list option \<Rightarrow> pyexc + pyfloat" where
  "to_float str parts =
     (if \<not> has_slash str then float_of_string str
      else case parts of
             None \<Rightarrow> Inl UnboundLocalError
           | Some ps \<Rightarrow>
               exc_bind (list_index ps 0) (\<lambda>a. exc_bind (float_of_string a) (\<lambda>x.
               exc_bind (list_index ps 1) (\<lambda>b. exc_bind (float_of_string b) (\<lambda>y.
               fdiv x y)))))"

definition compare_floats :: "string \<Rightarrow> string \<Rightarrow> pyexc + bool option" where
  "compare_floats user_str correct_str =
     try_pass
       (exc_bind (to_float user_str (map_option fst (answer_parts user_str correct_str)))
          (\<lambda>user_float.
        exc_bind (to_float correct_str (map_option snd (answer_parts user_str correct_str)))
          (\<lambda>correct_float.
        Inr (flt (fabs (fsub user_float correct_float)) lit_0_001))))"

text \<open>The body of the outer \<^verbatim>\<open>try\<close>.\<close>

definition compare_numeric :: "string \<Rightarrow> string \<Rightarrow> pyexc + bool option" where
  "compare_numeric user_str correct_str =
     exc_bind (compare_fractions user_str correct_str) (\<lambda>r1.
       case r1 of
         Some b \<Rightarrow> Inr (Some b)
       | None \<Rightarrow>
           exc_bind (compare_exact user_str correct_str) (\<lambda>r2.
             case r2 of
               Some b \<Rightarrow> Inr (Some b)
             | None \<Rightarrow> compare_floats user_str correct_str))"

text \<open>
  \<^verbatim>\<open>check_answer(user_answer, correct_answer)\<close>. The user's answer is a string or
  \<^verbatim>\<open>None\<close>. The outer handler \<^verbatim>\<open>except Exception\<close> takes every exception to the final
  comparison of the two strings.
\<close>

definition check_answer :: "string option \<Rightarrow> string \<Rightarrow> pyexc + bool" where
  "check_answer user_ans correct_ans =
     (case user_ans of
        None \<Rightarrow> Inr False
      | Some u \<Rightarrow>
          (let user_str = strip u; correct_str = strip correct_ans
           in if user_str = correct_str then Inr True
              else case compare_numeric user_str correct_str of
                     Inr (Some b) \<Rightarrow> Inr b
                   | Inr None \<Rightarrow> Inr (user_str = correct_str)
                   | Inl e \<Rightarrow> Inr (user_str = correct_str)))"

section \<open>The round loop of \<^verbatim>\<open>MathGame.play_timed_challenge\<close>\<close>

text \<open>
  One iteration of the loop, for round number \<open>round_num\<close>. The question and its answer
  come from the question generator, the user's answer from the interface and the time
  taken from the clock; they are arguments here. \<open>Inr None\<close> is the \<^verbatim>\<open>break\<close> on
  \<^verbatim>\<open>"__TIME_UP__"\<close> or \<^verbatim>\<open>"__QUIT__"\<close>. Otherwise the iteration yields the result dict, the
  streak message, the difficulty message and the session after the round.
\<close>

definition timed_round ::
  "MathGame \<Rightarrow> int \<Rightarrow> string \<Rightarrow> string \<Rightarrow> string option \<Rightarrow> pyfloat \<Rightarrow>
   pyexc + (RoundResult \<times> string option \<times> string option \<times> MathGame) option" where
  "timed_round self round_num q correct_ans user_ans t =
     (if user_ans = Some ''__TIME_UP__'' \<or> user_ans = Some ''__QUIT__'' then Inr None
      else
        exc_bind (check_answer user_ans correct_ans) (\<lambda>is_correct.
        exc_bind (calculate_score self is_correct t) (\<lambda>sc.
          let result = \<lparr>correct = is_correct, time_taken = t, question = q,
                        user_answer = user_ans, correct_answer = correct_ans,
                        score = Some sc\<rparr>;
              s1 = add_result self result;
              streak = update_streak s1 is_correct
          in if adaptive_difficulty (snd streak) \<and> round_num mod 3 = 0
             then (case adjust_difficulty (snd streak) of
                     (Inl e, s3) \<Rightarrow> Inl e
                   | (Inr msg, s3) \<Rightarrow> Inr (Some (result, fst streak, msg, s3)))
             else Inr (Some (result, fst streak, None, snd streak)))))"

text \<open>
  The loop, over the rounds that start before the deadline, and the whole method: the
  session is reset, the rounds are played and the statistics are returned.
\<close>

fun timed_rounds ::
  "MathGame \<Rightarrow> int \<Rightarrow> (string \<times> string \<times> string option \<times> pyfloat) list \<Rightarrow> pyexc + MathGame" where
  "timed_rounds self round_num [] = Inr self"
| "timed_rounds self round_num ((q, correct_ans, user_ans, t) # rest) =
     exc_bind (timed_round self round_num q correct_ans user_ans t) (\<lambda>r.
       case r of
         None \<Rightarrow> Inr self
       | Some (result, streak_msg, difficulty_msg, s) \<Rightarrow> timed_rounds s (round_num + 1) rest)"

definition play_timed_challenge ::
  "MathGame \<Rightarrow> (string \<times> string \<times> string option \<times> pyfloat) list \<Rightarrow> pyexc + (GameStats \<times> MathGame)" where
  "play_timed_challenge self inputs =
     exc_bind (timed_rounds (self\<lparr>results := [], streak_count := 0, total_score := 0\<rparr>) 1 inputs)
       (\<lambda>s. exc_bind (get_game_stats s) (\<lambda>stats. Inr (stats, s)))"

section \<open>Sessions as sequences of calls\<close>

text \<open>
  A session is driven by calls of the methods that assign attributes. \<open>menu_choice\<close>
  holds of a call when its difficulty choice is one the menus offer: the difficulty menu
  of the command line has the entries 1 to 4, and the touch interface passes the number
  of one of its buttons.
\<close>

datatype session_op =
    Setup "int option" int int bool int
  | AddResult RoundResult
  | UpdateStreak bool
  | AdjustDifficulty
  | ResetTimed

fun apply_op :: "MathGame \<Rightarrow> session_op \<Rightarrow> MathGame" where
  "apply_op s (Setup op c n tm secs) = setup_game s op c n tm secs"
| "apply_op s (AddResult r) = add_result s r"
| "apply_op s (UpdateStreak b) = snd (update_streak s b)"
| "apply_op s AdjustDifficulty = snd (adjust_difficulty s)"
| "apply_op s ResetTimed = s\<lparr>results := [], streak_count := 0, total_score := 0\<rparr>"

fun menu_choice :: "session_op \<Rightarrow> bool" where
  "menu_choice (Setup op c n tm secs) = (1 \<le> c \<and> c \<le> 4)"
| "menu_choice x = True"

section \<open>The scoring rule as the specification words it\<close>








section \<open>Example sessions\<close>

definition round_of :: "bool \<Rightarrow> pyfloat \<Rightarrow> int \<Rightarrow> RoundResult" where
  "round_of ok t sc = \<lparr>correct = ok, time_taken = t, question = ''2 + 2'',
     user_answer = Some ''4'', correct_answer = ''4'', score = Some sc\<rparr>"

definition fast_session :: MathGame where
  "fast_session = init_game\<lparr>adaptive_difficulty := True,
     results := [round_of True (Fin 1) 140, round_of True (Fin 2) 130, round_of True (Fin 3) 120]\<rparr>"

definition poor_session :: MathGame where
  "poor_session = init_game\<lparr>adaptive_difficulty := True, difficulty := 2,
     results := [round_of False (Fin 7) 0, round_of False (Fin 8) 0, round_of True (Fin 9) 150]\<rparr>"

definition streak2_session :: MathGame where
  "streak2_session = init_game\<lparr>streak_count := 2\<rparr>"


section \<open>Lemmas about binary64 rounding\<close>

lemma ipow_eq: "ipow b k = b ^ nat k"
proof (induction b k rule: ipow.induct)
  case (1 b k)
  show ?case
  proof (cases "k \<le> 0")
    case True
    then show ?thesis by (subst ipow.simps) simp
  next
    case pos: False
    show ?thesis
    proof (cases "even k")
      case True
      with pos have ih: "ipow b (k div 2) = b ^ nat (k div 2)" using 1(1) by simp
      have "nat k = nat (k div 2) + nat (k div 2)" using True pos by (auto elim!: evenE)
      then have "b ^ nat k = b ^ nat (k div 2) * b ^ nat (k div 2)" by (metis power_add)
      with pos True ih show ?thesis by (subst ipow.simps) (simp add: Let_def)
    next
      case False
      with pos have ih: "ipow b (k - 1) = b ^ nat (k - 1)" using 1(2) by simp
      have "nat k = Suc (nat (k - 1))" using pos by simp
      then have "b ^ nat k = b * b ^ nat (k - 1)" by (metis power_Suc)
      with pos False ih show ?thesis by (subst ipow.simps) simp
    qed
  qed
qed

lemma pow2_powi: "pow2 k = power_int 2 k"
  by (simp add: pow2_def ipow_eq power_int_def power_inverse inverse_eq_divide power_one_over)

lemma bit_length_bounds:
  "0 < n \<Longrightarrow> 1 \<le> bit_length n \<and> 2 ^ nat (bit_length n - 1) \<le> n \<and> n < 2 ^ nat (bit_length n)"
proof (induction n rule: bit_length.induct)
  case (1 n)
  have eq: "bit_length n = 1 + bit_length (n div 2)"
    using 1(2) by (subst bit_length.simps) simp
  show ?case
  proof (cases "n div 2 = 0")
    case True
    with 1(2) have n1: "n = 1" by presburger
    have "bit_length (n div 2) = 0" using True by (subst bit_length.simps) simp
    with eq n1 show ?thesis by simp
  next
    case False
    with 1(2) have mpos: "0 < n div 2" by presburger
    with 1 have ih: "1 \<le> bit_length (n div 2)" "2 ^ nat (bit_length (n div 2) - 1) \<le> n div 2"
      "n div 2 < 2 ^ nat (bit_length (n div 2))" by auto
    define b where "b = nat (bit_length (n div 2) - 1)"
    have b1: "nat (bit_length (n div 2)) = Suc b" using ih(1) by (simp add: b_def)
    have b2: "nat (bit_length n - 1) = Suc b" "nat (bit_length n) = Suc (Suc b)"
      using ih(1) eq by (simp_all add: b_def)
    have lo: "(2::int) ^ Suc b \<le> n" using ih(2) unfolding b_def [symmetric] by simp
    have hi: "n < (2::int) ^ Suc (Suc b)" using ih(3) unfolding b1 by simp
    show ?thesis using eq ih(1) lo hi unfolding b2 by simp
  qed
qed

lemma ilog2_bounds:
  assumes "0 < x"
  shows "power_int 2 (ilog2 x) \<le> x \<and> x < power_int 2 (ilog2 x + 1)"
proof -
  obtain p q where pq: "quotient_of x = (p, q)" by (cases "quotient_of x")
  have qpos: "0 < q" using pq by (rule quotient_of_denom_pos)
  have xeq: "x = of_int p / of_int q" using pq by (rule quotient_of_div)
  have ppos: "0 < p" using assms qpos xeq by (simp add: zero_less_divide_iff)
  define bp where "bp = bit_length p"
  define bq where "bq = bit_length q"
  have P: "1 \<le> bp" "2 ^ nat (bp - 1) \<le> p" "p < 2 ^ nat bp"
    using bit_length_bounds [OF ppos] by (simp_all add: bp_def)
  have Q: "1 \<le> bq" "2 ^ nat (bq - 1) \<le> q" "q < 2 ^ nat bq"
    using bit_length_bounds [OF qpos] by (simp_all add: bq_def)
  have Pr: "power_int 2 (bp - 1) \<le> (of_int p :: rat)" "(of_int p :: rat) < power_int 2 bp"
  proof -
    have "(of_int (2 ^ nat (bp - 1)) :: rat) \<le> of_int p" using P(2) by (simp only: of_int_le_iff)
    then show "power_int 2 (bp - 1) \<le> (of_int p :: rat)" using P(1) by (simp add: power_int_def)
    have "(of_int p :: rat) < of_int (2 ^ nat bp)" using P(3) by (simp only: of_int_less_iff)
    then show "(of_int p :: rat) < power_int 2 bp" using P(1) by (simp add: power_int_def)
  qed
  have Qr: "power_int 2 (bq - 1) \<le> (of_int q :: rat)" "(of_int q :: rat) < power_int 2 bq"
  proof -
    have "(of_int (2 ^ nat (bq - 1)) :: rat) \<le> of_int q" using Q(2) by (simp only: of_int_le_iff)
    then show "power_int 2 (bq - 1) \<le> (of_int q :: rat)" using Q(1) by (simp add: power_int_def)
    have "(of_int q :: rat) < of_int (2 ^ nat bq)" using Q(3) by (simp only: of_int_less_iff)
    then show "(of_int q :: rat) < power_int 2 bq" using Q(1) by (simp add: power_int_def)
  qed
  define k where "k = bp - bq"
  have qr: "0 < (of_int q :: rat)" using qpos by simp
  have lo: "power_int 2 (k - 1) \<le> x"
  proof -
    have "power_int 2 (k - 1) * (of_int q :: rat) \<le> power_int 2 (k - 1) * power_int 2 bq"
      using Qr(2) by (intro mult_left_mono) auto
    also have "\<dots> = power_int 2 (bp - 1)"
      by (simp add: k_def flip: power_int_add)
    also have "\<dots> \<le> of_int p" by (rule Pr(1))
    finally show ?thesis using qr by (simp add: xeq pos_le_divide_eq)
  qed
  have hi: "x < power_int 2 (k + 1)"
  proof -
    have "(of_int p :: rat) < power_int 2 bp" by (rule Pr(2))
    also have "\<dots> = power_int 2 (k + 1) * power_int 2 (bq - 1)"
      by (simp add: k_def flip: power_int_add)
    also have "\<dots> \<le> power_int 2 (k + 1) * of_int q"
      using Qr(1) by (intro mult_left_mono) auto
    finally show ?thesis using qr by (simp add: xeq pos_divide_less_eq)
  qed
  have il: "ilog2 x = (if power_int 2 k \<le> x then k else k - 1)"
    by (simp add: ilog2_def pq Let_def pow2_powi k_def bp_def bq_def)
  show ?thesis
  proof (cases "power_int 2 k \<le> x")
    case True
    with il hi show ?thesis by simp
  next
    case False
    with il lo show ?thesis by simp
  qed
qed

lemma ilog2_unique:
  assumes "0 < x" "power_int 2 e \<le> x" "x < power_int 2 (e + 1)"
  shows "ilog2 x = e"
proof -
  from ilog2_bounds [OF assms(1)]
  have b: "power_int 2 (ilog2 x) \<le> x" "x < power_int 2 (ilog2 x + 1)" by simp_all
  have "power_int (2::rat) (ilog2 x) < power_int 2 (e + 1)" using b(1) assms(3) by simp
  then have 1: "ilog2 x < e + 1"
    by (metis power_int_increasing not_le one_le_numeral)
  have "power_int (2::rat) e < power_int 2 (ilog2 x + 1)" using b(2) assms(2) by simp
  then have 2: "e < ilog2 x + 1"
    by (metis power_int_increasing not_le one_le_numeral)
  from 1 2 show ?thesis by simp
qed

lemma rhe_bounds:
  "of_int (round_half_even m) \<le> m + 1 / 2 \<and> m - 1 / 2 \<le> of_int (round_half_even m)"
  unfolding round_half_even_def Let_def by (auto; linarith)


lemma rhe_nonneg: "0 \<le> m \<Longrightarrow> 0 \<le> round_half_even m"
  unfolding round_half_even_def Let_def by (auto; linarith)



lemma pow2_pos [simp]: "0 < pow2 k"
  by (simp add: pow2_powi)

lemma pow2_add: "pow2 (a + b) = pow2 a * pow2 b"
  by (simp add: pow2_powi power_int_add)

lemma pow2_mono: "a \<le> b \<Longrightarrow> pow2 a \<le> pow2 b"
  by (simp add: pow2_powi power_int_increasing)

lemma pow2_strict_mono: "a < b \<Longrightarrow> pow2 a < pow2 b"
  by (simp add: pow2_powi power_int_strict_increasing)

lemma pow2_less_cancel: "pow2 a < pow2 b \<Longrightarrow> a < b"
  using pow2_mono [of b a] by (cases "a < b") auto

lemma pow2_0 [simp]: "pow2 0 = 1"
  by (simp add: pow2_powi)

lemma pow2_1 [simp]: "pow2 1 = 2"
  by (simp add: pow2_powi)

lemma pow2_nat: "0 \<le> k \<Longrightarrow> pow2 k = 2 ^ nat k"
  by (simp add: pow2_powi power_int_def)


lemma pow2_Suc: "pow2 (k + 1) = 2 * pow2 k"
  by (simp add: pow2_add)

lemma ilog2_lower: "0 < x \<Longrightarrow> pow2 (ilog2 x) \<le> x"
  using ilog2_bounds [of x] by (simp add: pow2_powi)


lemma ilog2_eqI: "0 < x \<Longrightarrow> pow2 e \<le> x \<Longrightarrow> x < pow2 (e + 1) \<Longrightarrow> ilog2 x = e"
  using ilog2_unique [of x e] by (simp add: pow2_powi)

lemma rnd_0 [simp]: "rnd 0 = Fin 0"
  by (simp add: rnd_def)

lemma rnd_pos:
  assumes "0 < x"
  shows "rnd x = (if pow2 1024 \<le>
                     of_int (round_half_even (x / pow2 (max (ilog2 x) (- 1022) - 52)))
                       * pow2 (max (ilog2 x) (- 1022) - 52)
                  then PInf
                  else Fin (of_int (round_half_even (x / pow2 (max (ilog2 x) (- 1022) - 52)))
                       * pow2 (max (ilog2 x) (- 1022) - 52)))"
proof -
  have "\<bar>x\<bar> = x" "x \<noteq> 0" using assms by simp_all
  then show ?thesis using assms unfolding rnd_def Let_def by simp
qed


lemma rnd_upper:
  assumes "0 \<le> x" "x < pow2 1023"
  shows "\<exists>r. rnd x = Fin r \<and> 0 \<le> r \<and> r \<le> 2 * x"
proof (cases "x = 0")
  case True
  then show ?thesis by simp
next
  case False
  with assms have xpos: "0 < x" by simp
  define u :: rat where "u = pow2 (max (ilog2 x) (- 1022) - 52)"
  define n where "n = round_half_even (x / u)"
  have upos: "0 < u" by (simp add: u_def)
  have n0: "0 \<le> n" unfolding n_def using xpos upos by (intro rhe_nonneg) simp
  have nle: "of_int n \<le> x / u + 1 / 2"
    using rhe_bounds [of "x / u"] by (simp add: n_def)
  have r2: "of_int n * u \<le> 2 * x"
  proof (cases "n = 0")
    case True
    then show ?thesis using xpos by simp
  next
    case False
    with n0 have "1 \<le> n" by simp
    then have "(1::rat) \<le> of_int n" by simp
    with nle have "of_int n \<le> 2 * (x / u)" by linarith
    then have "of_int n * u \<le> 2 * (x / u) * u" using upos by (intro mult_right_mono) simp_all
    then show ?thesis using upos by simp
  qed
  have r0: "0 \<le> of_int n * u" using n0 upos by simp
  have "pow2 1024 = 2 * pow2 1023" using pow2_Suc [of 1023] by simp
  then have "of_int n * u < pow2 1024" using r2 assms(2) by linarith
  then have "\<not> pow2 1024 \<le> of_int n * u" by simp
  then have "rnd x = Fin (of_int n * u)"
    using rnd_pos [OF xpos] unfolding u_def [symmetric] n_def [symmetric] by simp
  with r0 r2 show ?thesis by blast
qed

lemma rnd_lower:
  assumes "pow2 (- 1074) \<le> x"
  shows "rnd x = PInf \<or> (\<exists>r. rnd x = Fin r \<and> x / 2 \<le> r)"
proof -
  have xpos: "0 < x" using assms pow2_pos [of "- 1074"] by linarith
  define e where "e = max (ilog2 x) (- 1022)"
  define u :: rat where "u = pow2 (e - 52)"
  define n where "n = round_half_even (x / u)"
  have upos: "0 < u" by (simp add: u_def)
  have ux: "u \<le> x"
  proof (cases "ilog2 x \<le> - 1022")
    case True
    then have "e = - 1022" by (simp add: e_def)
    then show ?thesis using assms by (simp add: u_def)
  next
    case False
    then have "e = ilog2 x" by (simp add: e_def)
    then have "u \<le> pow2 (ilog2 x)" unfolding u_def by (intro pow2_mono) simp
    with ilog2_lower [OF xpos] show ?thesis by simp
  qed
  define m where "m = x / u"
  have "1 \<le> m" using ux upos by (simp add: m_def pos_le_divide_eq)
  moreover have "m - 1 / 2 \<le> of_int n"
    using rhe_bounds [of "x / u"] by (simp add: n_def m_def)
  ultimately have "m / 2 \<le> of_int n" by linarith
  then have "m / 2 * u \<le> of_int n * u" using upos by (intro mult_right_mono) simp_all
  then have "x / 2 \<le> of_int n * u" using upos by (simp add: m_def)
  moreover have "rnd x = (if pow2 1024 \<le> of_int n * u then PInf else Fin (of_int n * u))"
    using rnd_pos [OF xpos] unfolding e_def [symmetric] u_def [symmetric] n_def [symmetric] .
  ultimately show ?thesis by (cases "pow2 1024 \<le> of_int n * u") simp_all
qed




section \<open>Lemmas about the scoring arithmetic\<close>

lemma int_to_float_consts:
  "int_to_float 0 = Inr (Fin 0)" "int_to_float 1 = Inr (Fin 1)"
  "int_to_float 25 = Inr (Fin 25)" "int_to_float 50 = Inr (Fin 50)"
  "int_to_float 100 = Inr (Fin 100)"
  by code_simp+



lemma pow2_nonneg [simp]: "0 \<le> pow2 k"
  using pow2_pos [of k] by (simp only: less_imp_le)




























section \<open>Lemmas about the session methods\<close>


lemma fdiv_nonzero: "b \<noteq> 0 \<Longrightarrow> \<exists>y. fdiv x (Fin b) = Inr y"
  by (cases x) simp_all





lemma adjust_difficulty_range:
  "difficulty self \<in> {1, 2, 3} \<Longrightarrow> difficulty (snd (adjust_difficulty self)) \<in> {1, 2, 3}"
  by (auto simp: adjust_difficulty_def Let_def split: sum.splits)

lemma adjust_difficulty_streak:
  "streak_count (snd (adjust_difficulty self)) = streak_count self"
  by (auto simp: adjust_difficulty_def Let_def split: sum.splits)

lemma apply_op_range:
  "menu_choice x \<Longrightarrow> difficulty s \<in> {1, 2, 3} \<Longrightarrow> difficulty (apply_op s x) \<in> {1, 2, 3}"
proof (cases x)
  case (Setup op c n tm secs)
  assume "menu_choice x"
  with Setup show ?thesis by (auto simp: setup_game_def Let_def)
next
  case AdjustDifficulty
  assume "difficulty s \<in> {1, 2, 3}"
  with AdjustDifficulty show ?thesis using adjust_difficulty_range [of s] by simp
qed (auto simp: add_result_def update_streak_def Let_def)

lemma run_range:
  "list_all menu_choice ops \<Longrightarrow> difficulty s \<in> {1, 2, 3} \<Longrightarrow>
   difficulty (foldl apply_op s ops) \<in> {1, 2, 3}"
proof (induction ops arbitrary: s)
  case Nil
  then show ?case by simp
next
  case (Cons x xs)
  from Cons.prems have "menu_choice x" "list_all menu_choice xs" by simp_all
  moreover from this Cons.prems have "difficulty (apply_op s x) \<in> {1, 2, 3}"
    by (intro apply_op_range)
  ultimately have "difficulty (foldl apply_op (apply_op s x) xs) \<in> {1, 2, 3}"
    by (intro Cons.IH)
  then show ?case by simp
qed

lemma add_results_total:
  "total_score (foldl add_result s rs) = total_score s + sum_list (map get_score rs) \<and>
   results (foldl add_result s rs) = results s @ rs"
  by (induction rs arbitrary: s) (simp_all add: add_result_def)

section \<open>Lemmas about the statistics and the round\<close>

lemma pow2_numeral_le: "pow2 (- 1074) \<le> 1"
  using pow2_mono [of "- 1074" 0] by simp

lemma int_to_float_pos:
  assumes "0 < n" "n < 2 ^ 63"
  shows "\<exists>d. int_to_float n = Inr (Fin d) \<and> d \<noteq> 0"
proof -
  have "(of_int n :: rat) < of_int (2 ^ 63)" using assms(2) by (simp only: of_int_less_iff)
  also have "(of_int (2 ^ 63) :: rat) = pow2 63" by (simp add: pow2_nat)
  also have "\<dots> \<le> pow2 1023" by (intro pow2_mono) simp
  finally have up: "(of_int n :: rat) < pow2 1023" .
  have n1: "(1 :: rat) \<le> of_int n" using assms(1) by simp
  then have n0: "(0 :: rat) \<le> of_int n" by simp
  from rnd_upper [OF n0 up] obtain r where r: "rnd (of_int n) = Fin r" by blast
  have "pow2 (- 1074) \<le> (of_int n :: rat)" using pow2_numeral_le n1 by linarith
  from rnd_lower [OF this] r have "(of_int n :: rat) / 2 \<le> r" by simp
  with n1 have "r \<noteq> 0" by auto
  with r show ?thesis by (simp add: int_to_float_def)
qed

lemma int_truediv_ok:
  assumes "0 \<le> c" "c \<le> n" "0 < n"
  shows "\<exists>q. int_truediv c n = Inr q"
proof -
  have q0: "(0::rat) \<le> of_int c / of_int n" using assms by simp
  have "(of_int c :: rat) \<le> of_int n" using assms(2) by simp
  then have "(of_int c :: rat) / of_int n \<le> 1" using assms(3) by (simp add: divide_le_eq)
  also have "(1::rat) < pow2 1023" using pow2_strict_mono [of 0 1023] by simp
  finally have "(of_int c :: rat) / of_int n < pow2 1023" .
  from rnd_upper [OF q0 this] obtain r where "rnd (of_int c / of_int n) = Fin r" by blast
  then show ?thesis using assms(3) by (simp add: int_truediv_def)
qed

lemma count_correct_bounds: "0 \<le> count_correct rs \<and> count_correct rs \<le> int (length rs)"
  by (simp add: count_correct_def)

lemma get_game_stats_total:
  "get_game_stats s = Inr stats \<Longrightarrow> stats_total_score stats = sum_list (map get_score (results s))"
  by (auto simp: get_game_stats_def Let_def exc_bind_def split: if_splits sum.splits)

lemma get_game_stats_returns:
  assumes "length (results s) < 2 ^ 63"
  shows "\<exists>stats. get_game_stats s = Inr stats \<and> total_rounds stats = int (length (results s))"
proof (cases "results s = []")
  case True
  then show ?thesis by (simp add: get_game_stats_def)
next
  case False
  define n where "n = int (length (results s))"
  have npos: "0 < n" using False by (simp add: n_def)
  have "n < int (2 ^ 63)" unfolding n_def using assms by (simp only: of_nat_less_iff)
  then have nlt: "n < 2 ^ 63" by simp
  obtain q where q: "int_truediv (count_correct (results s)) n = Inr q"
    using int_truediv_ok [of "count_correct (results s)" n] count_correct_bounds [of "results s"] npos
    by (auto simp: n_def)
  obtain d where d: "int_to_float n = Inr (Fin d)" "d \<noteq> 0"
    using int_to_float_pos [OF npos nlt] by blast
  obtain y where y: "fdiv (float_sum (map time_taken (results s))) (Fin d) = Inr y"
    using fdiv_nonzero [OF d(2)] by blast
  show ?thesis
    using False npos q d(1) y
    by (simp add: get_game_stats_def Let_def exc_bind_def n_def [symmetric] float_div_int_def
        int_to_float_consts)
qed

lemma streak_below_threshold:
  "streak_count self < 3 \<Longrightarrow> calculate_score self ok t = calculate_score (self\<lparr>streak_count := 0\<rparr>) ok t"
  by (simp add: calculate_score_def add_streak_bonus_def STREAK_BONUS_THRESHOLD_def)

lemma check_answer_total: "\<exists>b. check_answer u c = Inr b"
  by (auto simp: check_answer_def Let_def split: option.splits sum.splits)


lemma streak2_round:
  "timed_round streak2_session 1 ''2 + 2'' ''4'' (Some ''4'') (Fin 10) =
     Inr (Some (round_of True (Fin 10) 100, Some ''3 ANSWER STREAK!'', None,
                streak2_session\<lparr>results := [round_of True (Fin 10) 100], streak_count := 3,
                                total_score := 100\<rparr>))"
  by code_simp


text \<open>
  The floor is taken of the binary64 sum. At a time of \<^verbatim>\<open>4.9\<close>, difficulty 1 and streak 0
  the sum \<open>100 + 50 * ((5.0 - 4.9) / 5.0)\<close> rounds to \<open>101.0\<close> and the score is 101, while the
  same expression over the exact value of the float \<^verbatim>\<open>4.9\<close> lies below 101.
\<close>

lemma score_at_4_9:
  "calculate_score init_game True (rnd (49 / 10)) = Inr 101"
  "rnd (49 / 10) = Fin (2758454771764429 / 562949953421312)"
  "\<lfloor>100 + 50 * ((5 - 2758454771764429 / 562949953421312) / 5) :: rat\<rfloor> = 100"
  by code_simp+

section \<open>Lemmas about strings and fractions\<close>



















lemma check_answer_none: "check_answer None c = Inr False"
  by (simp add: check_answer_def)

lemma check_answer_fallback:
  "\<forall>b. compare_numeric (strip u) (strip c) \<noteq> Inr (Some b) \<Longrightarrow>
   check_answer (Some u) c = Inr (strip u = strip c)"
  by (auto simp: check_answer_def Let_def split: sum.splits option.splits)

lemma malformed_examples:
  "check_answer (Some ''1/0'') ''1/2'' = Inr False"
  "check_answer (Some ''abc'') ''5'' = Inr False"
  "check_answer (Some ''1/2/3'') ''2/3'' = Inr False"
  "check_answer (Some ''inf'') ''1'' = Inr False"
  by code_simp+

section \<open>The adaptive difficulty controller\<close>


text \<open>
  The two windows of the specification: three fast correct answers at difficulty 1 give
  difficulty 2, and two wrong answers out of three at difficulty 2 give difficulty 1.
\<close>

lemma fast_session_adjusted:
  "adjust_difficulty fast_session =
     (Inr (Some ''Difficulty increased to Medium''), fast_session\<lparr>difficulty := 2\<rparr>)"
  by code_simp

lemma poor_session_adjusted:
  "adjust_difficulty poor_session =
     (Inr (Some ''Difficulty adjusted to Easy to help you improve''),
      poor_session\<lparr>difficulty := 1\<rparr>)"
  by code_simp


text \<open>
  Claim C10. With adaptive mode off, \<open>adjust_difficulty\<close> returns \<open>None\<close> and leaves the
  whole session as it was.
\<close>

theorem adjust_difficulty_off_noop:
  "\<not> adaptive_difficulty self \<Longrightarrow> adjust_difficulty self = (Inr None, self)"
  by (simp add: adjust_difficulty_def)

theorem adjust_difficulty_off_noop_witness:
  "\<not> adaptive_difficulty init_game \<and> adjust_difficulty init_game = (Inr None, init_game)"
  using adjust_difficulty_off_noop [of init_game] by (simp add: init_game_def)

section \<open>The streak tracker\<close>

text \<open>
  Claim C6. On a correct answer \<open>update_streak\<close> adds one to the streak and changes
  nothing else; it returns the milestone message exactly when the new count \<open>n\<close> has
  \<open>n \<ge> 3\<close> and \<open>n mod 3 = 0\<close>. On an incorrect answer it sets the streak to 0 and returns
  "Streak broken!" exactly when the count before was at least 3. The two other methods
  that assign attributes during a session, \<open>add_result\<close> and \<open>adjust_difficulty\<close>, leave
  the streak alone.
\<close>

theorem update_streak_step:
  "snd (update_streak self True) = self\<lparr>streak_count := streak_count self + 1\<rparr> \<and>
   fst (update_streak self True) =
     (if 3 \<le> streak_count self + 1 \<and> (streak_count self + 1) mod 3 = 0
      then Some (str_of_int (streak_count self + 1) @ '' ANSWER STREAK!'') else None) \<and>
   snd (update_streak self False) = self\<lparr>streak_count := 0\<rparr> \<and>
   fst (update_streak self False) =
     (if 3 \<le> streak_count self then Some ''Streak broken!'' else None) \<and>
   streak_count (add_result self r) = streak_count self \<and>
   streak_count (snd (adjust_difficulty self)) = streak_count self"
  by (simp add: update_streak_def Let_def STREAK_BONUS_THRESHOLD_def add_result_def
      adjust_difficulty_streak)

section \<open>The range of the difficulty\<close>

text \<open>
  Claim C8. In a session driven from a new game by calls whose difficulty choices are
  menu entries (1 to 4), the difficulty is always 1, 2 or 3. \<open>setup_game\<close> with a choice
  below 4 stores the choice and switches adaptive mode off; with 4 (or more) it stores 1
  and switches adaptive mode on; and \<open>adjust_difficulty\<close> keeps a difficulty of 1, 2 or 3
  in that range.
\<close>

theorem difficulty_in_range:
  "(list_all menu_choice ops \<longrightarrow> difficulty (foldl apply_op init_game ops) \<in> {1, 2, 3}) \<and>
   (c < 4 \<longrightarrow> difficulty (setup_game self op c n tm secs) = c \<and>
              \<not> adaptive_difficulty (setup_game self op c n tm secs)) \<and>
   (4 \<le> c \<longrightarrow> difficulty (setup_game self op c n tm secs) = 1 \<and>
              adaptive_difficulty (setup_game self op c n tm secs)) \<and>
   (difficulty self \<in> {1, 2, 3} \<longrightarrow> difficulty (snd (adjust_difficulty self)) \<in> {1, 2, 3})"
  using run_range [of ops init_game] adjust_difficulty_range [of self]
  by (simp add: setup_game_def Let_def init_game_def)

theorem difficulty_in_range_witness:
  "list_all menu_choice [Setup None 4 10 False 60, AddResult (round_of True (Fin 1) 140),
       UpdateStreak True, AdjustDifficulty] \<and>
   difficulty (foldl apply_op init_game [Setup None 4 10 False 60,
       AddResult (round_of True (Fin 1) 140), UpdateStreak True, AdjustDifficulty]) \<in> {1, 2, 3} \<and>
   (4::int) \<le> 4 \<and>
   difficulty (setup_game init_game None 4 10 False 60) = 1 \<and>
   adaptive_difficulty (setup_game init_game None 4 10 False 60) \<and>
   (2::int) < 4 \<and>
   difficulty (setup_game fast_session None 2 10 False 60) = 2 \<and>
   \<not> adaptive_difficulty (setup_game fast_session None 2 10 False 60) \<and>
   difficulty fast_session \<in> {1, 2, 3} \<and>
   difficulty (snd (adjust_difficulty fast_session)) \<in> {1, 2, 3}"
proof -
  have d: "difficulty fast_session \<in> {1, 2, 3}" by (simp add: fast_session_def init_game_def)
  have m: "list_all menu_choice [Setup None 4 10 False 60,
       AddResult (round_of True (Fin 1) 140), UpdateStreak True, AdjustDifficulty]" by simp
  have h4: "(4::int) \<le> 4" and h2: "(2::int) < 4" by simp_all
  note A = difficulty_in_range [of "[Setup None 4 10 False 60,
        AddResult (round_of True (Fin 1) 140), UpdateStreak True, AdjustDifficulty]"
        4 init_game None 10 False 60]
  note B = difficulty_in_range [of "[]" 2 fast_session None 10 False 60]
  have 1: "difficulty (foldl apply_op init_game [Setup None 4 10 False 60,
       AddResult (round_of True (Fin 1) 140), UpdateStreak True, AdjustDifficulty]) \<in> {1, 2, 3}"
    using A m by blast
  have 2: "difficulty (setup_game init_game None 4 10 False 60) = 1 \<and>
           adaptive_difficulty (setup_game init_game None 4 10 False 60)"
    using A h4 by blast
  have 3: "difficulty (setup_game fast_session None 2 10 False 60) = 2 \<and>
           \<not> adaptive_difficulty (setup_game fast_session None 2 10 False 60)"
    using B h2 by blast
  have 4: "difficulty (snd (adjust_difficulty fast_session)) \<in> {1, 2, 3}"
    using B d by blast
  show ?thesis using 1 2 3 4 m d h2 h4 by blast
qed

section \<open>The round and session aggregator\<close>

text \<open>
  Claim C9. From a session with no results and a total of 0, adding round results one by
  one with \<open>add_result\<close> leaves \<open>total_score\<close> equal to the sum of their scores (a result
  without the key counts 0), and \<open>get_game_stats\<close> recomputes the same total from the
  stored results; it returns for every list a Python list can be (fewer than \<open>2^63\<close>
  elements). On a session without results it returns zeros and divides nothing.
\<close>

theorem total_score_accumulates:
  "(results self = [] \<and> total_score self = 0 \<longrightarrow>
      total_score (foldl add_result self rs) = sum_list (map get_score rs) \<and>
      results (foldl add_result self rs) = rs \<and>
      (\<forall>stats. get_game_stats (foldl add_result self rs) = Inr stats \<longrightarrow>
         stats_total_score stats = total_score (foldl add_result self rs)) \<and>
      (length rs < 2 ^ 63 \<longrightarrow>
         (\<exists>stats. get_game_stats (foldl add_result self rs) = Inr stats \<and>
            total_rounds stats = int (length rs) \<and>
            stats_total_score stats = total_score (foldl add_result self rs)))) \<and>
   (results self = [] \<longrightarrow>
      get_game_stats self =
        Inr \<lparr>total_rounds = 0, correct_count = 0, accuracy = PInt 0, avg_time = PInt 0,
             stats_total_score = 0\<rparr>)"
proof (intro conjI impI allI)
  assume "results self = []"
  then show "get_game_stats self =
        Inr \<lparr>total_rounds = 0, correct_count = 0, accuracy = PInt 0, avg_time = PInt 0,
             stats_total_score = 0\<rparr>"
    by (simp add: get_game_stats_def)
next
  assume f: "results self = [] \<and> total_score self = 0"
  show t: "total_score (foldl add_result self rs) = sum_list (map get_score rs)"
    using add_results_total [of self rs] f by simp
  show r: "results (foldl add_result self rs) = rs"
    using add_results_total [of self rs] f by simp
  {
    fix stats
    assume "get_game_stats (foldl add_result self rs) = Inr stats"
    from get_game_stats_total [OF this] r t
    show "stats_total_score stats = total_score (foldl add_result self rs)" by simp
  }
  {
    assume "length rs < 2 ^ 63"
    with r have "length (results (foldl add_result self rs)) < 2 ^ 63" by simp
    from get_game_stats_returns [OF this] obtain stats where
      s: "get_game_stats (foldl add_result self rs) = Inr stats"
         "total_rounds stats = int (length (results (foldl add_result self rs)))" by blast
    from get_game_stats_total [OF s(1)] r t s
    show "\<exists>stats. get_game_stats (foldl add_result self rs) = Inr stats \<and>
            total_rounds stats = int (length rs) \<and>
            stats_total_score stats = total_score (foldl add_result self rs)" by auto
  }
qed


theorem total_score_accumulates_witness:
  "results init_game = [] \<and> total_score init_game = 0 \<and>
   length [round_of True (Fin 1) 140, round_of False (Fin 9) 0, round_of True (Fin 7) 100]
     < (2::nat) ^ 63 \<and>
   total_score (foldl add_result init_game
     [round_of True (Fin 1) 140, round_of False (Fin 9) 0, round_of True (Fin 7) 100]) = 240 \<and>
   (\<exists>stats. get_game_stats (foldl add_result init_game
        [round_of True (Fin 1) 140, round_of False (Fin 9) 0, round_of True (Fin 7) 100])
        = Inr stats \<and> total_rounds stats = 3 \<and> stats_total_score stats = 240) \<and>
   get_game_stats init_game =
     Inr \<lparr>total_rounds = 0, correct_count = 0, accuracy = PInt 0, avg_time = PInt 0,
          stats_total_score = 0\<rparr>"
proof -
  define rs where "rs = [round_of True (Fin 1) 140, round_of False (Fin 9) 0,
    round_of True (Fin 7) 100]"
  have f: "results init_game = [] \<and> total_score init_game = 0" by (simp add: init_game_def)
  have l: "length rs < 2 ^ 63" by (simp add: rs_def)
  have sum: "sum_list (map get_score rs) = 240" by (simp add: rs_def get_score_def round_of_def)
  note A = total_score_accumulates [of init_game rs]
  have t: "total_score (foldl add_result init_game rs) = 240" using A f sum by simp
  have "\<exists>stats. get_game_stats (foldl add_result init_game rs) = Inr stats \<and>
            total_rounds stats = int (length rs) \<and>
            stats_total_score stats = total_score (foldl add_result init_game rs)"
    using A f l by blast
  then have s: "\<exists>stats. get_game_stats (foldl add_result init_game rs) = Inr stats \<and>
            total_rounds stats = 3 \<and> stats_total_score stats = 240"
    using t by (simp add: rs_def)
  have e: "get_game_stats init_game =
     Inr \<lparr>total_rounds = 0, correct_count = 0, accuracy = PInt 0, avg_time = PInt 0,
          stats_total_score = 0\<rparr>"
    using A f by blast
  show ?thesis using f l t s e unfolding rs_def by blast
qed

section \<open>The streak value the score is computed from\<close>

text \<open>
  Claim C2 says that the score of a round is computed from the streak count that already
  includes the answer just given. The round loop calls \<open>calculate_score\<close> before
  \<open>update_streak\<close>: with a streak of 2 before the round, a correct answer is scored 100
  and brings the streak to 3, while the score at a streak of 3 would be 125.
\<close>

theorem score_not_from_post_increment_streak:
  "timed_round streak2_session 1 ''2 + 2'' ''4'' (Some ''4'') (Fin 10) =
     Inr (Some (round_of True (Fin 10) 100, Some ''3 ANSWER STREAK!'', None,
                streak2_session\<lparr>results := [round_of True (Fin 10) 100], streak_count := 3,
                                total_score := 100\<rparr>)) \<and>
   calculate_score
     (streak2_session\<lparr>results := [round_of True (Fin 10) 100], streak_count := 3,
                      total_score := 100\<rparr>) True (Fin 10) = Inr 125"
  by (rule conjI, rule streak2_round, code_simp)

text \<open>
  Claim C2, amended. Every round the loop processes is scored from the session as it is
  before the round: the streak count the score sees does not include the answer just
  given, and only afterwards does the streak become the old count plus one (or 0 on an
  incorrect answer). So while the count before the round is below 3 the round gets no
  streak bonus, also when its answer brings the streak to 3.
\<close>

theorem timed_round_scores_before_streak:
  assumes "timed_round self k q ca ua t = Inr (Some (result, smsg, dmsg, s'))"
  shows "\<exists>ok sc. check_answer ua ca = Inr ok \<and> correct result = ok \<and>
           calculate_score self ok t = Inr sc \<and> score result = Some sc \<and>
           streak_count s' = (if ok then streak_count self + 1 else 0) \<and>
           (streak_count self < 3 \<longrightarrow>
              calculate_score (self\<lparr>streak_count := 0\<rparr>) ok t = Inr sc)"
proof -
  obtain ok where ok: "check_answer ua ca = Inr ok" using check_answer_total by blast
  from assms ok obtain sc where sc: "calculate_score self ok t = Inr sc"
    by (cases "calculate_score self ok t") (auto simp: timed_round_def exc_bind_def split: if_splits)
  define res where "res = \<lparr>correct = ok, time_taken = t, question = q,
                        user_answer = ua, correct_answer = ca, score = Some sc\<rparr>"
  define s2 where "s2 = snd (update_streak (add_result self res) ok)"
  have st2: "streak_count s2 = (if ok then streak_count self + 1 else 0)"
    by (simp add: s2_def update_streak_def add_result_def Let_def)
  from assms ok sc have "result = res \<and> (s' = s2 \<or> s' = snd (adjust_difficulty s2))"
    by (auto simp: timed_round_def exc_bind_def Let_def res_def s2_def
        split: if_splits sum.splits prod.splits)
  then have "correct result = ok" "score result = Some sc" "streak_count s' = streak_count s2"
    by (auto simp: res_def adjust_difficulty_streak)
  with ok sc st2 streak_below_threshold [of self ok t] show ?thesis by auto
qed

theorem timed_round_scores_before_streak_witness:
  "timed_round streak2_session 1 ''2 + 2'' ''4'' (Some ''4'') (Fin 10) =
     Inr (Some (round_of True (Fin 10) 100, Some ''3 ANSWER STREAK!'', None,
                streak2_session\<lparr>results := [round_of True (Fin 10) 100], streak_count := 3,
                                total_score := 100\<rparr>)) \<and>
   (\<exists>ok sc. check_answer (Some ''4'') ''4'' = Inr ok \<and>
      correct (round_of True (Fin 10) 100) = ok \<and>
      calculate_score streak2_session ok (Fin 10) = Inr sc \<and>
      score (round_of True (Fin 10) 100) = Some sc \<and>
      streak_count (streak2_session\<lparr>results := [round_of True (Fin 10) 100],
         streak_count := 3, total_score := 100\<rparr>) =
        (if ok then streak_count streak2_session + 1 else 0) \<and>
      (streak_count streak2_session < 3 \<longrightarrow>
         calculate_score (streak2_session\<lparr>streak_count := 0\<rparr>) ok (Fin 10) = Inr sc))"
  using timed_round_scores_before_streak [OF streak2_round] streak2_round by blast

section \<open>The scoring calculator\<close>





section \<open>The answer comparator\<close>



text \<open>
  Claim C7 says that \<open>check_answer\<close> never raises and that a malformed answer, such as a
  string with two or more slashes, is judged incorrect. It never raises
  (\<open>check_answer_total\<close>) and \<open>None\<close> is judged incorrect (\<open>check_answer_none\<close>); but the
  answer \<^verbatim>\<open>"1/2/3"\<close> to a question whose answer is \<^verbatim>\<open>"1/2"\<close> is judged correct: the first
  attempt is skipped for its three parts, \<^verbatim>\<open>Fraction("1/2/3")\<close> raises \<^verbatim>\<open>ValueError\<close>, and the
  third attempt divides the first two parts and ignores the rest.
\<close>

theorem malformed_fraction_judged_correct:
  "check_answer (Some ''1/2/3'') ''1/2'' = Inr True"
  by code_simp

text \<open>
  Claim C1 says that decimal and mixed forms are compared with the tolerance
  \<open>|a - b| < 0.001\<close>, so that \<^verbatim>\<open>"0.5001"\<close> is a correct answer for \<^verbatim>\<open>"1/2"\<close>. The second
  attempt builds two exact fractions and returns their equality, also when it is false;
  the attempt with the tolerance is reached only when a fraction cannot be built. So
  \<^verbatim>\<open>"0.5"\<close> is correct and \<^verbatim>\<open>"0.51"\<close> incorrect for \<^verbatim>\<open>"1/2"\<close>, as the claim says, but
  \<^verbatim>\<open>"0.5001"\<close> is incorrect for \<^verbatim>\<open>"1/2"\<close> and for \<^verbatim>\<open>"0.5"\<close>, although the tolerant
  comparison of \<^verbatim>\<open>"0.5001"\<close> and \<^verbatim>\<open>"0.5"\<close> holds.
\<close>

theorem tolerance_not_applied:
  "check_answer (Some ''0.5'') ''1/2'' = Inr True \<and>
   check_answer (Some ''0.51'') ''1/2'' = Inr False \<and>
   check_answer (Some ''0.5001'') ''1/2'' = Inr False \<and>
   check_answer (Some ''0.5001'') ''0.5'' = Inr False \<and>
   compare_floats ''0.5001'' ''0.5'' = Inr (Some True)"
  by code_simp

end
